theory Spec2Isabelle
  imports Complex_Main
begin

section \<open>Values, errors and the library interface\<close>

text \<open>
  The service of \<^verbatim>\<open>api/latency.py\<close> reads a JSON body and a pandas table. One datatype
  of values serves for the request body, for the elements of \<^verbatim>\<open>regions\<close> and for the
  cells of the table: a cell of a \<^verbatim>\<open>float64\<close> column is a \<open>JFloat\<close>, of an
  \<^verbatim>\<open>int64\<close> column a \<open>JInt\<close>, of a \<^verbatim>\<open>bool\<close> column a \<open>JBool\<close>, and
  \<open>JNull\<close> is also the missing cell (pandas' NaN). An object keeps its members in
  document order; Python's parser lets the last of two equal keys win, and so does
  \<open>dict_get\<close> below.

  A Python \<^verbatim>\<open>float\<close> is the real number it denotes; NaN and the infinities are outside
  the model. The arithmetic on floats (a mean, a percentile, a division, a decimal
  rounding) is not computed here: it belongs to the library interface below.
\<close>

datatype json =
    JNull
  | JBool bool
  | JInt int
  | JFloat real
  | JStr string
  | JList "json list"
  | JObj "(string \<times> json) list"

text \<open>
  The exceptions that escape the handler (the framework answers them with status 500), and
  the outcomes of a failed call: the two \<^verbatim>\<open>HTTPException(status_code=400)\<close> are
  \<open>InvalidRequestShape\<close>, the \<^verbatim>\<open>500\<close> of line 70 is \<open>DataUnavailable\<close>, the one of
  line 76 is \<open>SchemaMismatch\<close>.
\<close>

datatype py_exc = AttributeError | KeyError | TypeError | OverflowError

datatype error = InvalidRequestShape | DataUnavailable | SchemaMismatch | Unhandled py_exc

text \<open>
  A numeric pandas \<^verbatim>\<open>Series\<close>, as \<^verbatim>\<open>pd.to_numeric(..., errors="coerce").dropna()\<close>
  leaves it: its dtype and its values in order. The value of an \<^verbatim>\<open>int64\<close> entry is
  the integer, of a \<^verbatim>\<open>bool\<close> entry 0 or 1.
\<close>

datatype dtype = BoolDtype | Int64Dtype | Float64Dtype

record series =
  dtype :: dtype
  vals :: "real list"

subsection \<open>The exact arithmetic of the examples\<close>

text \<open>
  The mean, numpy's \<^verbatim>\<open>linear\<close> percentile (the virtual index \<open>(n - 1) * q / 100\<close>,
  the sample below it, the next one clipped to the last, and the interpolation between
  them) and the rounding to a number of decimal digits with ties to even, all over the
  reals. They are the arithmetic of \<open>example_lib\<close> only; the examples are chosen so
  that floats give the same results.
\<close>

definition exact_mean :: "real list \<Rightarrow> real" where
  "exact_mean xs = sum_list xs / real (length xs)"

definition exact_percentile :: "real list \<Rightarrow> real \<Rightarrow> real" where
  "exact_percentile a q =
     (if a = [] then 0
      else
        let s = sort a;
            n = length s;
            virtual_index = real (n - 1) * (q / 100);
            previous_index = nat \<lfloor>virtual_index\<rfloor>;
            next_index = min (previous_index + 1) (n - 1);
            gamma = virtual_index - real previous_index
        in s ! previous_index + (s ! next_index - s ! previous_index) * gamma)"

definition round_half_even :: "real \<Rightarrow> int" where
  "round_half_even x =
     (let f = \<lfloor>x\<rfloor>; d = x - of_int f
      in if d < 1 / 2 then f else if 1 / 2 < d then f + 1 else if even f then f else f + 1)"

definition exact_round :: "real \<Rightarrow> nat \<Rightarrow> real" where
  "exact_round x ndigits = of_int (round_half_even (x * 10 ^ ndigits)) / 10 ^ ndigits"

definition example_dtype :: "json list \<Rightarrow> dtype" where
  "example_dtype vs =
     (if vs \<noteq> [] \<and> list_all (\<lambda>v. case v of JBool _ \<Rightarrow> True | _ \<Rightarrow> False) vs then BoolDtype
      else if list_all (\<lambda>v. case v of JInt _ \<Rightarrow> True | _ \<Rightarrow> False) vs then Int64Dtype
      else Float64Dtype)"

subsection \<open>The library\<close>

text \<open>
  What Python, pandas and numpy do beyond the source is a parameter of the model:
  \<^item> \<open>py_repr\<close> is \<^verbatim>\<open>str(v)\<close> for a request element that is not a string;
  \<^item> \<open>pd_repr\<close> is \<^verbatim>\<open>Series.astype(str)\<close> on a cell that is not a string;
  \<^item> \<open>unicode_lower\<close> is \<^verbatim>\<open>str.lower\<close> on a string with a character beyond ASCII;
  \<^item> \<open>pd_coerce\<close> is \<^verbatim>\<open>pd.to_numeric(errors="coerce")\<close> followed by \<^verbatim>\<open>dropna\<close> on
    a cell that is neither an \<^verbatim>\<open>int64\<close>, a float nor missing (a string, a boolean, a
    container, a larger integer): its number, or \<open>None\<close> when the cell is dropped;
  \<^item> \<open>pd_dtype\<close> is the dtype of the coerced series, from the cells it was made of;
  \<^item> \<open>series_mean\<close> is \<^verbatim>\<open>Series.mean()\<close> of a series with at least one value;
  \<^item> \<open>np_percentile\<close> is \<^verbatim>\<open>np.percentile(series, q)\<close>, which raises on some dtypes
    (\<^verbatim>\<open>TypeError\<close> on \<^verbatim>\<open>bool\<close>);
  \<^item> \<open>truediv\<close> is the division of two floats;
  \<^item> \<open>py_round\<close> is \<^verbatim>\<open>round(x, ndigits)\<close> on a float.
  Of the float arithmetic the model keeps three bounds, which hold of IEEE arithmetic
  because its rounding is monotone and 0, 1 and the small integers are floats: the mean
  of values between 0 and 1 is between 0 and 1, so is the quotient by 100 of a float
  between 0 and 100, and so is a float between 0 and 1 after decimal rounding.
\<close>

record pyfuns =
  py_repr_f :: "json \<Rightarrow> string"
  pd_repr_f :: "json \<Rightarrow> string"
  unicode_lower_f :: "string \<Rightarrow> string"
  pd_coerce_f :: "json \<Rightarrow> real option"
  pd_dtype_f :: "json list \<Rightarrow> dtype"
  series_mean_f :: "series \<Rightarrow> real"
  np_percentile_f :: "series \<Rightarrow> real \<Rightarrow> py_exc + real"
  truediv_f :: "real \<Rightarrow> real \<Rightarrow> real"
  py_round_f :: "real \<Rightarrow> nat \<Rightarrow> real"

definition float_bounds :: "pyfuns \<Rightarrow> bool" where
  "float_bounds f =
     ((\<forall>s. vals s \<noteq> [] \<and> list_all (\<lambda>x. 0 \<le> x \<and> x \<le> 1) (vals s)
           \<longrightarrow> 0 \<le> series_mean_f f s \<and> series_mean_f f s \<le> 1)
      \<and> (\<forall>x. 0 \<le> x \<and> x \<le> 100 \<longrightarrow> 0 \<le> truediv_f f x 100 \<and> truediv_f f x 100 \<le> 1)
      \<and> (\<forall>x n. 0 \<le> x \<and> x \<le> 1 \<longrightarrow> 0 \<le> py_round_f f x n \<and> py_round_f f x n \<le> 1))"

typedef pylib = "{f :: pyfuns. float_bounds f}"
proof
  show "\<lparr>py_repr_f = (\<lambda>v. []), pd_repr_f = (\<lambda>v. []), unicode_lower_f = (\<lambda>s. s),
         pd_coerce_f = (\<lambda>v. None), pd_dtype_f = (\<lambda>vs. Float64Dtype),
         series_mean_f = (\<lambda>s. 0), np_percentile_f = (\<lambda>s q. Inr 0),
         truediv_f = (\<lambda>x y. 0), py_round_f = (\<lambda>x n. 0)\<rparr> \<in> {f. float_bounds f}"
    by (simp add: float_bounds_def)
qed

setup_lifting type_definition_pylib

lift_definition py_repr :: "pylib \<Rightarrow> json \<Rightarrow> string" is py_repr_f .

lift_definition pd_repr :: "pylib \<Rightarrow> json \<Rightarrow> string" is pd_repr_f .

lift_definition unicode_lower :: "pylib \<Rightarrow> string \<Rightarrow> string" is unicode_lower_f .

lift_definition pd_coerce :: "pylib \<Rightarrow> json \<Rightarrow> real option" is pd_coerce_f .

lift_definition pd_dtype :: "pylib \<Rightarrow> json list \<Rightarrow> dtype" is pd_dtype_f .

lift_definition series_mean :: "pylib \<Rightarrow> series \<Rightarrow> real" is series_mean_f .

lift_definition np_percentile :: "pylib \<Rightarrow> series \<Rightarrow> real \<Rightarrow> py_exc + real" is np_percentile_f .

lift_definition truediv :: "pylib \<Rightarrow> real \<Rightarrow> real \<Rightarrow> real" is truediv_f .

lift_definition py_round :: "pylib \<Rightarrow> real \<Rightarrow> nat \<Rightarrow> real" is py_round_f .

text \<open>
  A library instance for evaluating examples: the exact arithmetic above, with
  \<^verbatim>\<open>np.percentile\<close> raising on a \<^verbatim>\<open>bool\<close> series. The examples use ASCII strings as
  regions and numbers or missing cells in the numeric columns, so the string functions
  and \<open>pd_coerce\<close> are never consulted.
\<close>

lift_definition example_lib :: pylib
  is "\<lparr>py_repr_f = (\<lambda>v. ''?''), pd_repr_f = (\<lambda>v. ''?''), unicode_lower_f = (\<lambda>s. s),
       pd_coerce_f = (\<lambda>v. None), pd_dtype_f = example_dtype,
       series_mean_f = (\<lambda>s. exact_mean (vals s)),
       np_percentile_f = (\<lambda>s q. if dtype s = BoolDtype then Inl TypeError
                                  else Inr (exact_percentile (vals s) q)),
       truediv_f = (\<lambda>x y. x / y), py_round_f = exact_round\<rparr>"
proof -
  have sums: "a * real (length xs) \<le> sum_list xs \<and> sum_list xs \<le> b * real (length xs)"
    if "\<forall>x \<in> set xs. a \<le> x \<and> x \<le> b" for xs and a b :: real
    using that by (induction xs) (auto simp: algebra_simps)
  have m: "0 \<le> exact_mean xs \<and> exact_mean xs \<le> 1"
    if "xs \<noteq> []" and "list_all (\<lambda>x. 0 \<le> x \<and> x \<le> 1) xs" for xs
  proof -
    from that(1) have pos: "0 < real (length xs)" by simp
    from that(2) have "\<forall>x \<in> set xs. 0 \<le> x \<and> x \<le> 1" by (simp add: list_all_iff)
    from sums [OF this] pos show ?thesis
      unfolding exact_mean_def by (simp add: pos_le_divide_eq pos_divide_le_eq)
  qed
  have fl: "\<lfloor>y\<rfloor> \<le> round_half_even y \<and> round_half_even y \<le> \<lceil>y\<rceil>" for y
  proof -
    have "\<lfloor>y\<rfloor> + 1 \<le> \<lceil>y\<rceil>" if "y - of_int \<lfloor>y\<rfloor> \<noteq> 0"
    proof -
      from that have "of_int \<lfloor>y\<rfloor> < y" by linarith
      then show ?thesis by linarith
    qed
    moreover have "\<lfloor>y\<rfloor> \<le> \<lceil>y\<rceil>" by linarith
    ultimately show ?thesis
      unfolding round_half_even_def Let_def by auto
  qed
  have r: "0 \<le> exact_round x n \<and> exact_round x n \<le> 1" if "0 \<le> x" and "x \<le> 1" for x n
  proof -
    let ?y = "x * 10 ^ n"
    have y0: "0 \<le> ?y" using that(1) by simp
    have y1: "?y \<le> 10 ^ n" using that(2) by (simp add: mult_left_le_one_le)
    have "0 \<le> \<lfloor>?y\<rfloor>" using y0 by simp
    then have lo: "0 \<le> round_half_even ?y"
      using fl [of ?y] by linarith
    have "?y \<le> of_int (10 ^ n)" using y1 by simp
    then have "\<lceil>?y\<rceil> \<le> 10 ^ n" by (simp only: ceiling_le_iff)
    then have hi: "round_half_even ?y \<le> 10 ^ n"
      using fl [of ?y] by linarith
    have "0 \<le> (of_int (round_half_even ?y) :: real)" using lo by simp
    then have 1: "0 \<le> exact_round x n" by (simp add: exact_round_def)
    have "(of_int (round_half_even ?y) :: real) \<le> of_int (10 ^ n)"
      using hi by (simp only: of_int_le_iff)
    then have "(of_int (round_half_even ?y) :: real) \<le> 10 ^ n" by simp
    then have 2: "exact_round x n \<le> 1" by (simp add: exact_round_def divide_le_eq_1)
    from 1 2 show ?thesis by blast
  qed
  show ?thesis
    unfolding float_bounds_def using m r by simp
qed

definition py_str :: "pylib \<Rightarrow> json \<Rightarrow> string" where
  "py_str L v = (case v of JStr s \<Rightarrow> s | _ \<Rightarrow> py_repr L v)"

definition astype_str :: "pylib \<Rightarrow> json \<Rightarrow> string" where
  "astype_str L v = (case v of JStr s \<Rightarrow> s | _ \<Rightarrow> pd_repr L v)"

text \<open>The number a cell coerces to: an \<^verbatim>\<open>int64\<close> or a float is itself.\<close>

definition to_numeric :: "pylib \<Rightarrow> json \<Rightarrow> real option" where
  "to_numeric L v =
     (case v of
        JNull \<Rightarrow> None
      | JInt i \<Rightarrow> if - 9223372036854775808 \<le> i \<and> i < 9223372036854775808 then Some (of_int i)
                  else pd_coerce L v
      | JFloat r \<Rightarrow> Some r
      | _ \<Rightarrow> pd_coerce L v)"

text \<open>\<^verbatim>\<open>pd.to_numeric(series, errors="coerce").dropna()\<close>: the parseable values, in order.\<close>

definition dropna_numeric :: "pylib \<Rightarrow> json list \<Rightarrow> series" where
  "dropna_numeric L vs = \<lparr>dtype = pd_dtype L vs, vals = List.map_filter (to_numeric L) vs\<rparr>"

subsection \<open>Strings\<close>

text \<open>
  \<^verbatim>\<open>str.lower\<close> on ASCII text: the letters A to Z move to a to z, every other character
  stays. On a string with a character beyond ASCII the library decides.
\<close>

definition lower_char :: "char \<Rightarrow> char" where
  "lower_char c =
     (let n = (of_char c :: nat) in if 65 \<le> n \<and> n \<le> 90 then char_of (n + 32) else c)"

definition lower :: "string \<Rightarrow> string" where
  "lower s = map lower_char s"

definition str_lower :: "pylib \<Rightarrow> string \<Rightarrow> string" where
  "str_lower L s =
     (if list_all (\<lambda>c. (of_char c :: nat) < 128) s then lower s else unicode_lower L s)"

subsection \<open>Python values of the request\<close>

text \<open>\<^verbatim>\<open>payload.get(key)\<close> on the parsed object: the last member wins, a missing key gives \<^verbatim>\<open>None\<close>.\<close>

definition dict_get :: "(string \<times> json) list \<Rightarrow> string \<Rightarrow> json" where
  "dict_get kvs k = (case map_of (rev kvs) k of None \<Rightarrow> JNull | Some v \<Rightarrow> v)"

text \<open>
  The numeric value of a Python \<^verbatim>\<open>bool\<close>, \<^verbatim>\<open>int\<close> or \<^verbatim>\<open>float\<close>, by which Python
  compares numbers of different types; \<^verbatim>\<open>bool\<close> is a subclass of \<^verbatim>\<open>int\<close>, so
  \<^verbatim>\<open>isinstance(True, (int, float))\<close> holds.
\<close>

definition num_val :: "json \<Rightarrow> real option" where
  "num_val v =
     (case v of
        JBool b \<Rightarrow> Some (if b then 1 else 0)
      | JInt i \<Rightarrow> Some (of_int i)
      | JFloat r \<Rightarrow> Some r
      | _ \<Rightarrow> None)"

definition isinstance_int_float :: "json \<Rightarrow> bool" where
  "isinstance_int_float v = (num_val v \<noteq> None)"

definition isinstance_list :: "json \<Rightarrow> bool" where
  "isinstance_list v = (case v of JList _ \<Rightarrow> True | _ \<Rightarrow> False)"

text \<open>
  The float nearest to an integer, ties to even, itself an integer: a float has 53
  significant bits, so an integer up to \<open>2\<^sup>5\<^sup>3\<close> in magnitude is a float, and a
  larger one is rounded at the bit 53 places below its highest. Then the float a numpy
  comparison with a Python float sees in a value: an \<^verbatim>\<open>int64\<close> entry is converted, a
  float is itself.
\<close>

function bit_length :: "int \<Rightarrow> int" where
  "bit_length i = (if i \<le> 0 then 0 else 1 + bit_length (i div 2))"
  by pat_completeness auto
termination
  by (relation "measure nat") auto

definition double_int :: "int \<Rightarrow> int" where
  "double_int i =
     (if \<bar>i\<bar> \<le> 9007199254740992 then i
      else
        let e = nat (bit_length \<bar>i\<bar> - 53)
        in sgn i * round_half_even (of_int \<bar>i\<bar> / 2 ^ e) * 2 ^ e)"

definition as_double :: "real \<Rightarrow> real" where
  "as_double x = (if x = of_int \<lfloor>x\<rfloor> then of_int (double_int \<lfloor>x\<rfloor>) else x)"

text \<open>
  \<^verbatim>\<open>float(threshold)\<close> on a value that passed \<^verbatim>\<open>isinstance(threshold, (int, float))\<close>:
  1.0 or 0.0 for a boolean, the nearest float for an integer, \<^verbatim>\<open>OverflowError\<close> when
  that is beyond the largest float (it has more than 1024 bits). The handler calls it on
  no other value.
\<close>

definition py_float :: "json \<Rightarrow> py_exc + real" where
  "py_float v =
     (case v of
        JBool b \<Rightarrow> Inr (if b then 1 else 0)
      | JInt i \<Rightarrow> if 1024 < bit_length \<bar>double_int i\<bar> then Inl OverflowError
                  else Inr (of_int (double_int i))
      | JFloat r \<Rightarrow> Inr r
      | _ \<Rightarrow> Inl TypeError)"

text \<open>
  Keys of a Python \<^verbatim>\<open>dict\<close>: lists and dicts are unhashable; numbers (booleans among
  them) are equal keys when their values are equal, other values when they are the same.
\<close>

definition hashable :: "json \<Rightarrow> bool" where
  "hashable v = (case v of JList _ \<Rightarrow> False | JObj _ \<Rightarrow> False | _ \<Rightarrow> True)"

definition py_eq :: "json \<Rightarrow> json \<Rightarrow> bool" where
  "py_eq a b =
     (case (num_val a, num_val b) of
        (Some x, Some y) \<Rightarrow> x = y
      | (None, None) \<Rightarrow> a = b
      | _ \<Rightarrow> False)"

text \<open>
  \<^verbatim>\<open>out[key] = value\<close> on a \<^verbatim>\<open>dict\<close> held in insertion order: an equal key keeps
  its place and its first spelling and takes the new value; a new key goes to the end.
\<close>

fun setitem :: "(json \<times> 'v) list \<Rightarrow> json \<Rightarrow> 'v \<Rightarrow> (json \<times> 'v) list" where
  "setitem [] k v = [(k, v)]"
| "setitem ((k', v') # kvs) k v =
     (if py_eq k' k then (k', v) # kvs else (k', v') # setitem kvs k v)"

section \<open>The telemetry table\<close>

text \<open>
  A \<^verbatim>\<open>DataFrame\<close>: the column labels in order (strings, the keys of the JSON records;
  labels may repeat after a rename) and the rows, each a list of cells in column order. A
  row shorter than the label list has missing cells there.
\<close>

record dataframe =
  columns :: "string list"
  rows :: "json list list"

definition cell :: "json list \<Rightarrow> nat \<Rightarrow> json" where
  "cell r i = (if i < length r then r ! i else JNull)"

text \<open>\<^verbatim>\<open>df.empty\<close>: some axis has length 0.\<close>

definition df_empty :: "dataframe \<Rightarrow> bool" where
  "df_empty df = (columns df = [] \<or> rows df = [])"

definition positions :: "string list \<Rightarrow> string \<Rightarrow> nat list" where
  "positions cs name = filter (\<lambda>i. cs ! i = name) [0..<length cs]"

text \<open>
  \<^verbatim>\<open>df[name]\<close>: a Series when the label stands once, a DataFrame when it is repeated, a
  \<^verbatim>\<open>KeyError\<close> when it is absent.
\<close>

datatype picked = NoColumn | OneColumn "json list" | ManyColumns

definition getitem :: "dataframe \<Rightarrow> string \<Rightarrow> picked" where
  "getitem df name =
     (case positions (columns df) name of
        [] \<Rightarrow> NoColumn
      | [i] \<Rightarrow> OneColumn (map (\<lambda>r. cell r i) (rows df))
      | _ \<Rightarrow> ManyColumns)"

text \<open>\<^verbatim>\<open>df[mask]\<close>: the rows whose mask entry is true.\<close>

definition boolean_index :: "dataframe \<Rightarrow> bool list \<Rightarrow> dataframe" where
  "boolean_index df keep = df\<lparr>rows := map snd (filter fst (zip keep (rows df)))\<rparr>"

section \<open>The Schema Normalizer (\<^verbatim>\<open>normalize_df\<close>, lines 31 to 47)\<close>

text \<open>
  \<^verbatim>\<open>cols = {c.lower(): c for c in df.columns}\<close>: a later column replaces an earlier one
  with the same lower-cased label. The dict is read at six keys only, the ASCII aliases,
  and \<^verbatim>\<open>str.lower\<close> sends no label with a character beyond ASCII to one of them (the
  one such character with an ASCII lower case is the Kelvin sign, whose lower case is
  \<^verbatim>\<open>k\<close>, a letter of no alias). So the ASCII \<open>lower\<close> gives the lookups of the
  source.
\<close>

definition lower_index :: "string list \<Rightarrow> (string \<rightharpoonup> string)" where
  "lower_index cs = foldl (\<lambda>m c. m(lower c \<mapsto> c)) Map.empty cs"

definition build_rename :: "(string \<rightharpoonup> string) \<Rightarrow> (string \<rightharpoonup> string)" where
  "build_rename cols =
     (let rename0 = Map.empty;
          rename1 = (case cols ''region'' of
                       Some c \<Rightarrow> rename0(c \<mapsto> ''region'')
                     | None \<Rightarrow> rename0);
          rename2 = (case cols ''latency_ms'' of
                       Some c \<Rightarrow> rename1(c \<mapsto> ''latency_ms'')
                     | None \<Rightarrow>
                         (case cols ''latency'' of
                            Some c \<Rightarrow> rename1(c \<mapsto> ''latency_ms'')
                          | None \<Rightarrow>
                              (case cols ''ping'' of
                                 Some c \<Rightarrow> rename1(c \<mapsto> ''latency_ms'')
                               | None \<Rightarrow> rename1)));
          rename3 = (case cols ''uptime'' of
                       Some c \<Rightarrow> rename2(c \<mapsto> ''uptime'')
                     | None \<Rightarrow>
                         (case cols ''up'' of
                            Some c \<Rightarrow> rename2(c \<mapsto> ''uptime'')
                          | None \<Rightarrow> rename2))
      in rename3)"

text \<open>\<^verbatim>\<open>df.rename(columns=rename)\<close>: a label in the dict is replaced, any other stays.\<close>

definition rename_columns :: "(string \<rightharpoonup> string) \<Rightarrow> dataframe \<Rightarrow> dataframe" where
  "rename_columns rename df =
     df\<lparr>columns := map (\<lambda>c. case rename c of Some n \<Rightarrow> n | None \<Rightarrow> c) (columns df)\<rparr>"

definition normalize_df :: "dataframe \<Rightarrow> dataframe" where
  "normalize_df df = rename_columns (build_rename (lower_index (columns df))) df"


section \<open>The Region Aggregator (\<^verbatim>\<open>latency_endpoint\<close>, lines 49 to 115)\<close>

record metrics =
  avg_latency :: "real option"
  p95_latency :: "real option"
  avg_uptime :: "real option"
  breaches :: nat

text \<open>
  Lines 89 to 97: the mean, the percentile and the breach count, before rounding, in the
  order of the source: the mean first, then the percentile (numpy may raise), then
  \<^verbatim>\<open>float(threshold)\<close> (Python may raise) and the comparison with each value as a float.
\<close>

definition latency_stats ::
  "pylib \<Rightarrow> dataframe \<Rightarrow> json \<Rightarrow> py_exc + (real option \<times> real option \<times> nat)" where
  "latency_stats L sub threshold =
     (case getitem sub ''latency_ms'' of
        NoColumn \<Rightarrow> Inl KeyError
      | ManyColumns \<Rightarrow> Inl TypeError
      | OneColumn vs \<Rightarrow>
          let lat = dropna_numeric L vs in
          if vals lat = [] then Inr (None, None, 0)
          else
            let avg_latency = series_mean L lat in
            (case np_percentile L lat 95 of
               Inl e \<Rightarrow> Inl e
             | Inr p95 \<Rightarrow>
                 (case py_float threshold of
                    Inl e \<Rightarrow> Inl e
                  | Inr t \<Rightarrow>
                      Inr (Some avg_latency, Some p95,
                           length (filter (\<lambda>x. t < as_double x) (vals lat))))))"

text \<open>
  Lines 99 to 106: the average uptime, before rounding. The comparison with the integer 1
  is exact; the division by \<^verbatim>\<open>100.0\<close> is a float division of each value and leaves a
  \<^verbatim>\<open>float64\<close> series.
\<close>

definition uptime_stats :: "pylib \<Rightarrow> dataframe \<Rightarrow> py_exc + real option" where
  "uptime_stats L sub =
     (if ''uptime'' \<in> set (columns sub) then
        (case getitem sub ''uptime'' of
           NoColumn \<Rightarrow> Inl KeyError
         | ManyColumns \<Rightarrow> Inl TypeError
         | OneColumn vs \<Rightarrow>
             let up = dropna_numeric L vs;
                 up' = (if vals up \<noteq> [] \<and> list_ex (\<lambda>x. 1 < x) (vals up)
                        then \<lparr>dtype = Float64Dtype,
                              vals = map (\<lambda>x. truediv L (as_double x) 100) (vals up)\<rparr>
                        else up)
             in Inr (if vals up' \<noteq> [] then Some (series_mean L up') else None))
      else Inr None)"

text \<open>The body of the loop of line 82, up to the value stored under the region.\<close>

definition region_metrics :: "pylib \<Rightarrow> dataframe \<Rightarrow> json \<Rightarrow> json \<Rightarrow> py_exc + metrics" where
  "region_metrics L df threshold region =
     (case getitem df ''region'' of
        NoColumn \<Rightarrow> Inl KeyError
      | ManyColumns \<Rightarrow> Inl AttributeError
      | OneColumn regs \<Rightarrow>
          let sub = boolean_index df
                      (map (\<lambda>v. str_lower L (astype_str L v) = str_lower L (py_str L region)) regs)
          in
          if df_empty sub then
            Inr \<lparr>avg_latency = None, p95_latency = None, avg_uptime = None, breaches = 0\<rparr>
          else
            (case latency_stats L sub threshold of
               Inl e \<Rightarrow> Inl e
             | Inr (avg, p95, n) \<Rightarrow>
                 (case uptime_stats L sub of
                    Inl e \<Rightarrow> Inl e
                  | Inr up \<Rightarrow>
                      Inr \<lparr>avg_latency = map_option (\<lambda>x. py_round L x 3) avg,
                           p95_latency = map_option (\<lambda>x. py_round L x 3) p95,
                           avg_uptime = map_option (\<lambda>x. py_round L x 6) up,
                           breaches = n\<rparr>)))"

text \<open>The loop over \<^verbatim>\<open>regions\<close>; storing under an unhashable key raises \<^verbatim>\<open>TypeError\<close>.\<close>

fun regions_loop ::
  "pylib \<Rightarrow> dataframe \<Rightarrow> json \<Rightarrow> json list \<Rightarrow> (json \<times> metrics) list
     \<Rightarrow> py_exc + (json \<times> metrics) list" where
  "regions_loop L df threshold [] out = Inr out"
| "regions_loop L df threshold (region # rest) out =
     (case region_metrics L df threshold region of
        Inl e \<Rightarrow> Inl e
      | Inr m \<Rightarrow>
          if hashable region then regions_loop L df threshold rest (setitem out region m)
          else Inl TypeError)"

text \<open>
  The handler. \<open>body\<close> is the parsed request body, \<open>None\<close> when parsing failed;
  \<open>TELEMETRY_DF\<close> is the module's table.
\<close>

definition latency_endpoint ::
  "pylib \<Rightarrow> dataframe \<Rightarrow> json option \<Rightarrow> error + (json \<times> metrics) list" where
  "latency_endpoint L TELEMETRY_DF body =
     (case body of
        None \<Rightarrow> Inl InvalidRequestShape
      | Some payload \<Rightarrow>
          (case payload of
             JObj kvs \<Rightarrow>
               let regions = dict_get kvs ''regions'';
                   threshold = dict_get kvs ''threshold_ms''
               in
               if \<not> isinstance_list regions \<or> \<not> isinstance_int_float threshold then
                 Inl InvalidRequestShape
               else if df_empty TELEMETRY_DF then Inl DataUnavailable
               else
                 let df = normalize_df TELEMETRY_DF in
                 if ''region'' \<notin> set (columns df) \<or> ''latency_ms'' \<notin> set (columns df) then
                   Inl SchemaMismatch
                 else
                   (case regions of
                      JList rs \<Rightarrow>
                        (case regions_loop L df threshold rs [] of
                           Inl e \<Rightarrow> Inl (Unhandled e)
                         | Inr out \<Rightarrow> Inr out)
                    | _ \<Rightarrow> Inl InvalidRequestShape)
           | _ \<Rightarrow> Inl (Unhandled AttributeError)))"

section \<open>Notions and example tables used in the statements\<close>

text \<open>The JSON kinds of a value, as the request format has them.\<close>

definition json_number :: "json \<Rightarrow> bool" where
  "json_number v = (case v of JInt _ \<Rightarrow> True | JFloat _ \<Rightarrow> True | _ \<Rightarrow> False)"

definition json_boolean :: "json \<Rightarrow> bool" where
  "json_boolean v = (case v of JBool _ \<Rightarrow> True | _ \<Rightarrow> False)"

definition json_string :: "json \<Rightarrow> bool" where
  "json_string v = (case v of JStr _ \<Rightarrow> True | _ \<Rightarrow> False)"

text \<open>The table of the end-to-end example: three samples of one region, latency under an alias.\<close>

definition df_nyc :: dataframe where
  "df_nyc = \<lparr>columns = [''region'', ''latency''],
          rows = [[JStr ''nyc1'', JInt 100], [JStr ''nyc1'', JInt 300], [JStr ''nyc1'', JInt 200]]\<rparr>"

text \<open>A table with the canonical columns and no rows, and a table with no latency column.\<close>

definition df_no_rows :: dataframe where
  "df_no_rows = \<lparr>columns = [''region'', ''latency_ms''], rows = []\<rparr>"

definition df_no_latency :: dataframe where
  "df_no_latency = \<lparr>columns = [''region'', ''uptime''], rows = [[JStr ''nyc1'', JFloat (99 / 100)]]\<rparr>"

text \<open>
  The rows of a region (step 1 of the per-region algorithm): those whose cell in column
  \<open>i\<close>, as a string in lower case, equals the requested region in lower case. The
  sample set of a column \<open>j\<close> over some rows: the cells that coerce to a number.
\<close>

definition region_rows :: "pylib \<Rightarrow> dataframe \<Rightarrow> nat \<Rightarrow> json \<Rightarrow> json list list" where
  "region_rows L df i region =
     filter (\<lambda>r. str_lower L (astype_str L (cell r i)) = str_lower L (py_str L region))
       (rows df)"

definition samples :: "pylib \<Rightarrow> nat \<Rightarrow> json list list \<Rightarrow> real list" where
  "samples L j rs = List.map_filter (\<lambda>r. to_numeric L (cell r j)) rs"

text \<open>The coerced series of column \<open>j\<close> over some rows; its values are their samples.\<close>

definition column_series :: "pylib \<Rightarrow> nat \<Rightarrow> json list list \<Rightarrow> series" where
  "column_series L j rs = dropna_numeric L (map (\<lambda>r. cell r j) rs)"

definition null_metrics :: metrics where
  "null_metrics = \<lparr>avg_latency = None, p95_latency = None, avg_uptime = None, breaches = 0\<rparr>"

text \<open>
  A table with three regions: \<^verbatim>\<open>ams\<close> (stored in two spellings) has a latency equal to
  the threshold 150, a missing latency and uptimes in both units; \<^verbatim>\<open>fra\<close> has
  fractional uptimes only; \<^verbatim>\<open>sgp\<close> has a row and no parseable value.
\<close>

definition df_mix :: dataframe where
  "df_mix = \<lparr>columns = [''region'', ''latency_ms'', ''uptime''],
             rows = [[JStr ''ams'', JInt 150, JFloat (1 / 2)],
                     [JStr ''AMS'', JNull, JInt 99],
                     [JStr ''ams'', JInt 151, JNull],
                     [JStr ''fra'', JInt 500, JFloat (1 / 4)],
                     [JStr ''fra'', JInt 100, JInt 1],
                     [JStr ''sgp'', JNull, JNull]]\<rparr>"

text \<open>A table whose only uptime value is 250.\<close>

definition df_250 :: dataframe where
  "df_250 = \<lparr>columns = [''region'', ''latency_ms'', ''uptime''],
             rows = [[JStr ''ams'', JInt 10, JInt 250]]\<rparr>"

text \<open>
  The normalizer in the words of the specification: a table of canonical names, each with
  its aliases in priority order; a canonical name is resolved to the column of its first
  alias that names a column (looked up without regard to case), and a column is renamed
  when a canonical name resolves to it.
\<close>

definition alias_table :: "(string \<times> string list) list" where
  "alias_table =
     [(''region'', [''region'']),
      (''latency_ms'', [''latency_ms'', ''latency'', ''ping'']),
      (''uptime'', [''uptime'', ''up''])]"

definition resolve :: "(string \<rightharpoonup> string) \<Rightarrow> string list \<Rightarrow> string option" where
  "resolve cols aliases =
     (case find (\<lambda>a. cols a \<noteq> None) aliases of None \<Rightarrow> None | Some a \<Rightarrow> cols a)"

definition spec_rename :: "string list \<Rightarrow> string \<Rightarrow> string" where
  "spec_rename cs c =
     (case find (\<lambda>(canon, aliases). resolve (lower_index cs) aliases = Some c) alias_table of
        None \<Rightarrow> c
      | Some (canon, aliases) \<Rightarrow> canon)"

definition spec_normalize :: "dataframe \<Rightarrow> dataframe" where
  "spec_normalize df = df\<lparr>columns := map (spec_rename (columns df)) (columns df)\<rparr>"

text \<open>A table with mixed-case aliases, a second latency alias and a column of no alias.\<close>

definition df_alias :: dataframe where
  "df_alias = \<lparr>columns = [''Region'', ''latency'', ''ping'', ''UP'', ''host''],
               rows = [[JStr ''ams'', JInt 120, JInt 7, JInt 99, JStr ''a1'']]\<rparr>"

section \<open>Basic facts\<close>

lemma dict_get_last:
  "dict_get (kvs @ [(k, v)]) k = v"
  by (simp add: dict_get_def)

lemma dict_get_other:
  "k \<noteq> k' \<Longrightarrow> dict_get (kvs @ [(k', v)]) k = dict_get kvs k"
  by (simp add: dict_get_def)

lemma latency_stats_py_float:
  "py_float t1 = py_float t2 \<Longrightarrow> latency_stats L sub t1 = latency_stats L sub t2"
  by (simp add: latency_stats_def Let_def split: picked.splits sum.splits)

lemma region_metrics_py_float:
  "py_float t1 = py_float t2 \<Longrightarrow> region_metrics L df t1 r = region_metrics L df t2 r"
  by (simp add: region_metrics_def Let_def latency_stats_py_float [of t1 t2] split: picked.splits)

lemma regions_loop_py_float:
  "py_float t1 = py_float t2 \<Longrightarrow> regions_loop L df t1 rs out = regions_loop L df t2 rs out"
  by (induction rs arbitrary: out)
     (simp_all add: region_metrics_py_float [of t1 t2] split: sum.splits)

lemma py_eq_refl: "py_eq k k"
  by (simp add: py_eq_def split: option.splits)

lemma py_eq_JStr: "py_eq k (JStr s) \<longleftrightarrow> k = JStr s"
  by (cases k) (auto simp: py_eq_def num_val_def)

lemma keys_setitem:
  "map fst (setitem out k v) =
     (if list_ex (\<lambda>k'. py_eq k' k) (map fst out) then map fst out else map fst out @ [k])"
  by (induction out) (force simp: list_ex_iff)+

lemma keys_setitem_JStr:
  "map fst (setitem out (JStr s) v) =
     (if JStr s \<in> set (map fst out) then map fst out else map fst out @ [JStr s])"
  by (auto simp add: keys_setitem list_ex_iff py_eq_JStr)

lemma set_setitem_cases:
  "(k', v') \<in> set (setitem out k v) \<Longrightarrow> (k', v') \<in> set out \<or> (py_eq k' k \<and> v' = v)"
  by (induction out) (auto simp: py_eq_refl split: if_splits)

lemma setitem_covers:
  "\<exists>k' \<in> set (map fst (setitem out k v)). py_eq k' k"
  by (induction out) (force simp: py_eq_refl)+

lemma setitem_keeps_keys:
  "set (map fst out) \<subseteq> set (map fst (setitem out k v))"
  by (auto simp: keys_setitem)

lemma remdups_snoc:
  "remdups (ys @ [r]) = filter (\<lambda>y. y \<noteq> r) (remdups ys) @ [r]"
  by (induction ys) auto

lemma first_occurrences_Cons:
  "rev (remdups (rev (r # rs))) = r # rev (remdups (rev (filter (\<lambda>y. y \<noteq> r) rs)))"
  by (simp add: remdups_snoc rev_filter remdups_filter)

lemma regions_loop_keys:
  assumes "regions_loop L df t rs out = Inr out'"
      and "list_all json_string rs"
  shows "map fst out' =
           map fst out @ rev (remdups (rev (filter (\<lambda>r. r \<notin> set (map fst out)) rs)))"
  using assms
proof (induction rs arbitrary: out)
  case Nil
  then show ?case by simp
next
  case (Cons r rs)
  from Cons.prems(2) obtain s where r: "r = JStr s"
    by (cases r) (auto simp: json_string_def)
  from Cons.prems(1) obtain m where m: "region_metrics L df t r = Inr m"
    and rest: "regions_loop L df t rs (setitem out r m) = Inr out'"
    by (auto split: sum.splits if_splits)
  from Cons.prems(2) have strs: "list_all json_string rs" by simp
  note ih = Cons.IH [OF rest strs]
  show ?case
  proof (cases "r \<in> set (map fst out)")
    case True
    then have "map fst (setitem out r m) = map fst out"
      unfolding r by (simp only: keys_setitem_JStr if_True)
    with ih True show ?thesis by simp
  next
    case False
    then have k: "map fst (setitem out r m) = map fst out @ [r]"
      unfolding r by (simp only: keys_setitem_JStr if_False)
    have f: "filter (\<lambda>x. x \<notin> set (map fst out @ [r])) rs
               = filter (\<lambda>y. y \<noteq> r) (filter (\<lambda>x. x \<notin> set (map fst out)) rs)"
      by (auto intro: filter_cong)
    from ih False show ?thesis
      unfolding k f by (simp add: first_occurrences_Cons del: rev.simps remdups.simps)
  qed
qed

lemma regions_loop_values:
  assumes "regions_loop L df t rs out = Inr out'"
      and "list_all json_string rs"
      and "\<And>k m. (k, m) \<in> set out \<Longrightarrow> region_metrics L df t k = Inr m"
      and "(k, m) \<in> set out'"
  shows "region_metrics L df t k = Inr m"
  using assms
proof (induction rs arbitrary: out)
  case Nil
  then show ?case by simp
next
  case (Cons r rs)
  from Cons.prems(2) obtain s where r: "r = JStr s"
    by (cases r) (auto simp: json_string_def)
  from Cons.prems(1) obtain m' where m': "region_metrics L df t r = Inr m'"
    and rest: "regions_loop L df t rs (setitem out r m') = Inr out'"
    by (auto split: sum.splits if_splits)
  from Cons.prems(2) have strs: "list_all json_string rs" by simp
  have inv: "\<And>k m. (k, m) \<in> set (setitem out r m') \<Longrightarrow> region_metrics L df t k = Inr m"
  proof -
    fix k m assume "(k, m) \<in> set (setitem out r m')"
    then have "(k, m) \<in> set out \<or> (py_eq k r \<and> m = m')" by (rule set_setitem_cases)
    then show "region_metrics L df t k = Inr m"
      using Cons.prems(3) m' by (auto simp: r py_eq_JStr)
  qed
  show ?case by (rule Cons.IH [OF rest strs inv Cons.prems(4)])
qed

lemma regions_loop_covers:
  assumes "regions_loop L df t rs out = Inr out'"
  shows "set (map fst out) \<subseteq> set (map fst out') \<and>
         (\<forall>r \<in> set rs. \<exists>k \<in> set (map fst out'). py_eq k r)"
  using assms
proof (induction rs arbitrary: out)
  case Nil
  then show ?case by simp
next
  case (Cons r rs)
  from Cons.prems(1) obtain m' where m': "region_metrics L df t r = Inr m'"
    and rest: "regions_loop L df t rs (setitem out r m') = Inr out'"
    by (auto split: sum.splits if_splits)
  note ih = Cons.IH [OF rest]
  from setitem_covers [of out r m'] obtain k
    where kin: "k \<in> set (map fst (setitem out r m'))" and keq: "py_eq k r"
    by blast
  from ih have sub: "set (map fst (setitem out r m')) \<subseteq> set (map fst out')"
    and cov: "\<forall>r \<in> set rs. \<exists>k \<in> set (map fst out'). py_eq k r"
    by blast+
  have "set (map fst out) \<subseteq> set (map fst out')"
    using setitem_keeps_keys [of out r m'] sub by blast
  moreover have "\<exists>k \<in> set (map fst out'). py_eq k r"
    using kin keq sub by blast
  ultimately show ?case using cov by simp
qed

lemma endpoint_well_shaped:
  assumes "dict_get kvs ''regions'' = JList rs"
      and "isinstance_int_float (dict_get kvs ''threshold_ms'')"
  shows "latency_endpoint L df (Some (JObj kvs)) =
           (if df_empty df then Inl DataUnavailable
            else if ''region'' \<notin> set (columns (normalize_df df))
                    \<or> ''latency_ms'' \<notin> set (columns (normalize_df df))
              then Inl SchemaMismatch
            else (case regions_loop L (normalize_df df) (dict_get kvs ''threshold_ms'') rs [] of
                    Inl e \<Rightarrow> Inl (Unhandled e)
                  | Inr out \<Rightarrow> Inr out))"
  using assms by (simp add: latency_endpoint_def Let_def isinstance_list_def)

lemma endpoint_bad_shape:
  assumes "\<not> isinstance_list (dict_get kvs ''regions'')
           \<or> \<not> isinstance_int_float (dict_get kvs ''threshold_ms'')"
  shows "latency_endpoint L df (Some (JObj kvs)) = Inl InvalidRequestShape"
  using assms by (auto simp add: latency_endpoint_def Let_def)

lemma endpoint_Inr:
  assumes "latency_endpoint L df (Some (JObj kvs)) = Inr out"
      and "dict_get kvs ''regions'' = JList rs"
  shows "regions_loop L (normalize_df df) (dict_get kvs ''threshold_ms'') rs [] = Inr out"
proof -
  have num: "isinstance_int_float (dict_get kvs ''threshold_ms'')"
    using assms(1) endpoint_bad_shape [of kvs L df] by auto
  show ?thesis
    using assms(1) unfolding endpoint_well_shaped [OF assms(2) num]
    by (auto split: if_splits sum.splits)
qed

section \<open>The output mapping\<close>

text \<open>
  Claim C1, as the code has it. The result is a Python \<^verbatim>\<open>dict\<close>, so a region string
  requested twice is stored under one key: when the call succeeds on a list of strings, the
  keys of the output are the distinct requested strings in the order of their first
  occurrence, each spelled as the caller wrote it (two spellings that differ in case are
  two keys), there are as many entries as distinct strings, and the value under a key is
  what the per-region computation gives for that string.
\<close>

theorem output_keys_first_occurrence:
  assumes "latency_endpoint L df (Some (JObj kvs)) = Inr out"
      and "dict_get kvs ''regions'' = JList rs"
      and "list_all json_string rs"
  shows "map fst out = rev (remdups (rev rs))
         \<and> length out = card (set rs)
         \<and> (\<forall>(k, m) \<in> set out.
               region_metrics L (normalize_df df) (dict_get kvs ''threshold_ms'') k = Inr m)"
proof -
  note loop = endpoint_Inr [OF assms(1) assms(2)]
  have keys: "map fst out = rev (remdups (rev rs))"
    using regions_loop_keys [OF loop assms(3)] by simp
  have "length (map fst out) = card (set rs)"
    unfolding keys by (simp add: length_remdups_card_conv)
  then have len: "length out = card (set rs)" by simp
  have vals: "\<And>k m. (k, m) \<in> set out \<Longrightarrow>
      region_metrics L (normalize_df df) (dict_get kvs ''threshold_ms'') k = Inr m"
    by (rule regions_loop_values [OF loop assms(3)]) simp_all
  from keys len vals show ?thesis by blast
qed

theorem output_keys_first_occurrence_witness:
  "latency_endpoint example_lib df_nyc
     (Some (JObj [(''regions'', JList [JStr ''nyc1'', JStr ''NYC1'', JStr ''nyc1'']),
                  (''threshold_ms'', JInt 150)]))
     = Inr [(JStr ''nyc1'', \<lparr>avg_latency = Some 200, p95_latency = Some 290,
                               avg_uptime = None, breaches = 2\<rparr>),
            (JStr ''NYC1'', \<lparr>avg_latency = Some 200, p95_latency = Some 290,
                               avg_uptime = None, breaches = 2\<rparr>)]
   \<and> rev (remdups (rev [JStr ''nyc1'', JStr ''NYC1'', JStr ''nyc1''])) = [JStr ''nyc1'', JStr ''NYC1'']
   \<and> card (set [JStr ''nyc1'', JStr ''NYC1'', JStr ''nyc1'']) = 2
   \<and> region_metrics example_lib (normalize_df df_nyc) (JInt 150) (JStr ''NYC1'')
       = Inr \<lparr>avg_latency = Some 200, p95_latency = Some 290, avg_uptime = None, breaches = 2\<rparr>"
proof -
  let ?kvs = "[(''regions'', JList [JStr ''nyc1'', JStr ''NYC1'', JStr ''nyc1'']),
               (''threshold_ms'', JInt 150)]"
  let ?m = "\<lparr>avg_latency = Some 200, p95_latency = Some 290, avg_uptime = None, breaches = 2\<rparr>"
  have run: "latency_endpoint example_lib df_nyc (Some (JObj ?kvs))
               = Inr [(JStr ''nyc1'', ?m), (JStr ''NYC1'', ?m)]"
    by code_simp
  have regs: "dict_get ?kvs ''regions'' = JList [JStr ''nyc1'', JStr ''NYC1'', JStr ''nyc1'']"
    by code_simp
  have thr: "dict_get ?kvs ''threshold_ms'' = JInt 150"
    by code_simp
  have strs: "list_all json_string [JStr ''nyc1'', JStr ''NYC1'', JStr ''nyc1'']"
    by (simp add: json_string_def)
  from output_keys_first_occurrence [OF run regs strs] run show ?thesis
    unfolding thr by simp
qed

text \<open>
  The claim as written (one entry per element of \<^verbatim>\<open>regions\<close>, duplicates kept as
  separate entries) fails: two equal elements give one entry.
\<close>

theorem duplicate_regions_counterexample:
  "latency_endpoint example_lib df_nyc
     (Some (JObj [(''regions'', JList [JStr ''nyc1'', JStr ''nyc1'']), (''threshold_ms'', JInt 150)]))
     = Inr [(JStr ''nyc1'', \<lparr>avg_latency = Some 200, p95_latency = Some 290,
                               avg_uptime = None, breaches = 2\<rparr>)]"
  by code_simp

section \<open>Call-level errors\<close>

text \<open>
  Claim C8, as the code has it. The shape of the request is checked first (line 63), the
  table after it (lines 69 and 75), both before the loop. So for every request whose
  \<^verbatim>\<open>regions\<close> is a list and whose \<^verbatim>\<open>threshold_ms\<close> passes the number check: a
  table with zero rows fails the call with \<open>DataUnavailable\<close>; a non-empty table that
  lacks \<^verbatim>\<open>region\<close> or \<^verbatim>\<open>latency_ms\<close> after normalization fails it with
  \<open>SchemaMismatch\<close>, whatever the regions are; and a call that returns a mapping has
  an entry for every requested region. The result type itself is either one error or one
  mapping.
\<close>

theorem table_errors_abort_call:
  assumes "dict_get kvs ''regions'' = JList rs"
      and "isinstance_int_float (dict_get kvs ''threshold_ms'')"
  shows "(rows df = [] \<longrightarrow> latency_endpoint L df (Some (JObj kvs)) = Inl DataUnavailable)
       \<and> (\<not> df_empty df
            \<and> (''region'' \<notin> set (columns (normalize_df df))
                 \<or> ''latency_ms'' \<notin> set (columns (normalize_df df)))
          \<longrightarrow> latency_endpoint L df (Some (JObj kvs)) = Inl SchemaMismatch)
       \<and> (\<forall>out. latency_endpoint L df (Some (JObj kvs)) = Inr out
            \<longrightarrow> (\<forall>r \<in> set rs. \<exists>k \<in> set (map fst out). py_eq k r))"
proof (intro conjI impI allI)
  assume "rows df = []"
  then show "latency_endpoint L df (Some (JObj kvs)) = Inl DataUnavailable"
    unfolding endpoint_well_shaped [OF assms] by (simp add: df_empty_def)
next
  assume "\<not> df_empty df
            \<and> (''region'' \<notin> set (columns (normalize_df df))
                 \<or> ''latency_ms'' \<notin> set (columns (normalize_df df)))"
  then show "latency_endpoint L df (Some (JObj kvs)) = Inl SchemaMismatch"
    unfolding endpoint_well_shaped [OF assms] by auto
next
  fix out
  assume "latency_endpoint L df (Some (JObj kvs)) = Inr out"
  from regions_loop_covers [OF endpoint_Inr [OF this assms(1)]]
  show "\<forall>r \<in> set rs. \<exists>k \<in> set (map fst out). py_eq k r" by blast
qed

theorem table_errors_abort_call_witness:
  "latency_endpoint example_lib df_no_rows
     (Some (JObj [(''regions'', JList [JStr ''nyc1'', JList []]), (''threshold_ms'', JInt 150)]))
     = Inl DataUnavailable
   \<and> latency_endpoint example_lib df_no_latency
     (Some (JObj [(''regions'', JList [JStr ''nyc1'', JList []]), (''threshold_ms'', JInt 150)]))
     = Inl SchemaMismatch
   \<and> latency_endpoint example_lib df_nyc
     (Some (JObj [(''regions'', JList [JStr ''NYC1'']), (''threshold_ms'', JInt 150)]))
     = Inr [(JStr ''NYC1'', \<lparr>avg_latency = Some 200, p95_latency = Some 290,
                               avg_uptime = None, breaches = 2\<rparr>)]
   \<and> (\<exists>k \<in> set [JStr ''NYC1'']. py_eq k (JStr ''NYC1''))"
proof -
  let ?kvs = "[(''regions'', JList [JStr ''nyc1'', JList []]), (''threshold_ms'', JInt 150)]"
  have regs: "dict_get ?kvs ''regions'' = JList [JStr ''nyc1'', JList []]"
    by code_simp
  have thr: "isinstance_int_float (dict_get ?kvs ''threshold_ms'')"
    by code_simp
  have e: "rows df_no_rows = []"
    by (simp add: df_no_rows_def)
  have ne: "\<not> df_empty df_no_latency"
    by (simp add: df_no_latency_def df_empty_def)
  have miss: "''latency_ms'' \<notin> set (columns (normalize_df df_no_latency))"
    by code_simp
  from table_errors_abort_call [OF regs thr, of df_no_rows example_lib] e
  have 1: "latency_endpoint example_lib df_no_rows (Some (JObj ?kvs)) = Inl DataUnavailable"
    by blast
  from table_errors_abort_call [OF regs thr, of df_no_latency example_lib] ne miss
  have 2: "latency_endpoint example_lib df_no_latency (Some (JObj ?kvs)) = Inl SchemaMismatch"
    by blast
  let ?kvs3 = "[(''regions'', JList [JStr ''NYC1'']), (''threshold_ms'', JInt 150)]"
  let ?out = "[(JStr ''NYC1'', \<lparr>avg_latency = Some 200, p95_latency = Some 290,
                                 avg_uptime = None, breaches = 2\<rparr>)]"
  have regs3: "dict_get ?kvs3 ''regions'' = JList [JStr ''NYC1'']"
    by code_simp
  have thr3: "isinstance_int_float (dict_get ?kvs3 ''threshold_ms'')"
    by code_simp
  have run: "latency_endpoint example_lib df_nyc (Some (JObj ?kvs3)) = Inr ?out"
    by code_simp
  from table_errors_abort_call [OF regs3 thr3, of df_nyc example_lib] run
  have 3: "\<exists>k \<in> set (map fst ?out). py_eq k (JStr ''NYC1'')"
    by simp
  from 1 2 run 3 show ?thesis by simp
qed

text \<open>
  The claim as written (an empty table fails with \<open>DataUnavailable\<close> regardless of the
  request) fails: with \<^verbatim>\<open>threshold_ms\<close> the string \<^verbatim>\<open>"180"\<close> the call on a table
  without rows fails with \<open>InvalidRequestShape\<close>.
\<close>

theorem empty_table_bad_request_counterexample:
  "rows df_no_rows = []
   \<and> latency_endpoint example_lib df_no_rows
       (Some (JObj [(''regions'', JList [JStr ''nyc1'']), (''threshold_ms'', JStr ''180'')]))
       = Inl InvalidRequestShape"
  by code_simp

text \<open>
  Claim C9, as the code has it. For a body that is a JSON object, the call fails with
  \<open>InvalidRequestShape\<close> whenever \<^verbatim>\<open>regions\<close> is not a list, or
  \<^verbatim>\<open>threshold_ms\<close> is neither a JSON number nor a JSON boolean; the string
  \<^verbatim>\<open>"180"\<close> is such a value.
\<close>

theorem invalid_request_shape:
  assumes "\<not> isinstance_list (dict_get kvs ''regions'')
           \<or> (\<not> json_number (dict_get kvs ''threshold_ms'')
               \<and> \<not> json_boolean (dict_get kvs ''threshold_ms''))"
  shows "latency_endpoint L df (Some (JObj kvs)) = Inl InvalidRequestShape"
proof -
  have "\<not> json_number v \<and> \<not> json_boolean v \<Longrightarrow> \<not> isinstance_int_float v" for v
    by (cases v) (simp_all add: json_number_def json_boolean_def isinstance_int_float_def num_val_def)
  with assms show ?thesis
    by (intro endpoint_bad_shape) blast
qed

theorem invalid_request_shape_witness:
  "latency_endpoint example_lib df_nyc
     (Some (JObj [(''regions'', JList [JStr ''nyc1'']), (''threshold_ms'', JStr ''180'')]))
     = Inl InvalidRequestShape
   \<and> latency_endpoint example_lib df_nyc
     (Some (JObj [(''regions'', JStr ''nyc1''), (''threshold_ms'', JInt 180)]))
     = Inl InvalidRequestShape"
proof -
  let ?a = "[(''regions'', JList [JStr ''nyc1'']), (''threshold_ms'', JStr ''180'')]"
  let ?b = "[(''regions'', JStr ''nyc1''), (''threshold_ms'', JInt 180)]"
  have a: "\<not> isinstance_list (dict_get ?a ''regions'')
           \<or> (\<not> json_number (dict_get ?a ''threshold_ms'')
               \<and> \<not> json_boolean (dict_get ?a ''threshold_ms''))"
    by code_simp
  have b: "\<not> isinstance_list (dict_get ?b ''regions'')
           \<or> (\<not> json_number (dict_get ?b ''threshold_ms'')
               \<and> \<not> json_boolean (dict_get ?b ''threshold_ms''))"
    by code_simp
  from invalid_request_shape [OF a, of example_lib df_nyc]
       invalid_request_shape [OF b, of example_lib df_nyc]
  show ?thesis by simp
qed

text \<open>
  The claim as written (every \<^verbatim>\<open>threshold_ms\<close> that is not a number fails) does not
  hold for the JSON value \<^verbatim>\<open>true\<close>: the call succeeds, with the threshold 1.
\<close>

theorem boolean_threshold_counterexample:
  "\<not> json_number (JBool True)
   \<and> latency_endpoint example_lib df_nyc
       (Some (JObj [(''regions'', JList [JStr ''nyc1'']), (''threshold_ms'', JBool True)]))
       = Inr [(JStr ''nyc1'', \<lparr>avg_latency = Some 200, p95_latency = Some 290,
                                 avg_uptime = None, breaches = 3\<rparr>)]"
  by code_simp

end
